theory Spec2Isabelle
  imports Complex_Main "HOL-Library.AList" "HOL-Library.Char_ord" "HOL-Library.List_Lexorder"
begin

section \<open>Data model\<close>

text \<open>
  Field values of a stored document. The schema of \<open>models/Item.js\<close> has \<open>String\<close> and
  \<open>Number\<close> paths only; a path may also be absent or hold \<open>null\<close>. Numbers are modelled
  as exact rationals: the mean of an aggregation is the exact quotient, without the rounding of
  IEEE doubles.
\<close>

datatype val = Null | Num rat | Str string

text \<open>
  A JavaScript object is its list of own properties in insertion order. Reading a property that
  is not there gives \<open>undefined\<close>, here \<open>None\<close>; the assignment \<open>o.k = v\<close> replaces the value
  of an existing property in place and appends a new one.
\<close>

type_synonym doc = "(string \<times> val) list"

type_synonym params = "(string \<times> string) list"

type_synonym filter = "(string \<times> string) list"

definition get_prop :: "(string \<times> 'a) list \<Rightarrow> string \<Rightarrow> 'a option" where
  "get_prop obj k = map_of obj k"

definition set_prop :: "string \<Rightarrow> 'a \<Rightarrow> (string \<times> 'a) list \<Rightarrow> (string \<times> 'a) list" where
  "set_prop k v obj = AList.update k v obj"

section \<open>Filter builder\<close>

text \<open>
  The parameters of a request (\<open>req.query\<close> of \<open>GET /\<close>, \<open>req.body\<close> of \<open>POST /filter\<close>)
  are string-valued properties. \<open>truthy\<close> is the test of \<open>if (country)\<close> on such a
  property: \<open>undefined\<close> and the empty string are falsy, every other string is truthy.
\<close>

definition truthy :: "string option \<Rightarrow> bool" where
  "truthy p = (case p of None \<Rightarrow> False | Some s \<Rightarrow> s \<noteq> [])"

text \<open>The statement \<open>if (p) filter.k = p;\<close>.\<close>

definition assign_if :: "string \<Rightarrow> string option \<Rightarrow> filter \<Rightarrow> filter" where
  "assign_if k p flt = (case p of None \<Rightarrow> flt | Some s \<Rightarrow> if s \<noteq> [] then set_prop k s flt else flt)"

text \<open>The filter of \<open>router.get("/")\<close>, lines 13 to 22.\<close>

definition list_filter :: "params \<Rightarrow> filter" where
  "list_filter query =
    (let country = get_prop query ''country'';
         sector = get_prop query ''sector'';
         topic = get_prop query ''topic'';
         pestle = get_prop query ''pestle'';
         region = get_prop query ''region'';
         start_year = get_prop query ''start_year'';
         end_year = get_prop query ''end_year'';
         flt = [];
         flt = assign_if ''country'' country flt;
         flt = assign_if ''sector'' sector flt;
         flt = assign_if ''topic'' topic flt;
         flt = assign_if ''pestle'' pestle flt;
         flt = assign_if ''region'' region flt;
         flt = assign_if ''start_year'' start_year flt;
         flt = assign_if ''end_year'' end_year flt
     in flt)"

text \<open>The filter of \<open>router.post("/filter")\<close>, lines 120 to 129.\<close>

definition chart_filter :: "params \<Rightarrow> filter" where
  "chart_filter body =
    (let flt = [];
         region = get_prop body ''region'';
         sector = get_prop body ''sector'';
         topic = get_prop body ''topic'';
         end_year = get_prop body ''end_year'';
         country = get_prop body ''country'';
         pestle = get_prop body ''pestle'';
         source = get_prop body ''source'';
         flt = assign_if ''region'' region flt;
         flt = assign_if ''sector'' sector flt;
         flt = assign_if ''topic'' topic flt;
         flt = assign_if ''end_year'' end_year flt;
         flt = assign_if ''country'' country flt;
         flt = assign_if ''pestle'' pestle flt;
         flt = assign_if ''source'' source flt
     in flt)"

text \<open>The parameter names each of the two handlers reads.\<close>

definition list_params :: "string list" where
  "list_params =
    [''country'', ''sector'', ''topic'', ''pestle'', ''region'', ''start_year'', ''end_year'']"

definition chart_params :: "string list" where
  "chart_params =
    [''region'', ''sector'', ''topic'', ''end_year'', ''country'', ''pestle'', ''source'']"

subsection \<open>The store's equality match\<close>

text \<open>
  The document store is an external collaborator. Its query \<open>{k: s}\<close> with a string \<open>s\<close>
  selects the documents whose field \<open>k\<close> is present and equal to \<open>s\<close>; a filter is the
  conjunction of its conditions, and the empty filter selects every document.
\<close>

definition field_is :: "doc \<Rightarrow> string \<times> string \<Rightarrow> bool" where
  "field_is d c = (get_prop d (fst c) = Some (Str (snd c)))"

definition matches :: "filter \<Rightarrow> doc \<Rightarrow> bool" where
  "matches flt d = list_all (field_is d) flt"

section \<open>The document store\<close>

text \<open>
  The store client is an external collaborator; what follows is the documented behaviour of
  the calls the handlers make. The collection is the list of stored documents, each carrying
  its identifier in \<open>_id\<close>. A call takes the collection and gives back a settled promise and
  the collection after the call.
\<close>

datatype 'a promise = Resolved 'a | Rejected string

type_synonym 'a store_op = "doc list \<Rightarrow> 'a promise \<times> doc list"

text \<open>
  What the handlers cannot see from the code: whether the store fails at the n-th call of a
  request (and with which error message), how the persistence layer casts an identifier and
  a request body against the schema (\<open>Inl\<close> carries the message of the cast or validation
  error), the identifier it assigns and its clock.
\<close>

record env =
  fault :: "nat \<Rightarrow> string option"
  cast_id :: "string \<Rightarrow> string + string"
  cast_doc :: "doc \<Rightarrow> string + doc"
  new_id :: string
  now :: string

text \<open>
  \<open>await\<close> inside a \<open>try\<close> block: a rejected promise skips the rest of the block.
\<close>

definition and_then :: "'a store_op \<Rightarrow> ('a \<Rightarrow> 'b store_op) \<Rightarrow> 'b store_op" where
  "and_then m k coll =
    (case m coll of
       (Resolved x, coll') \<Rightarrow> k x coll'
     | (Rejected err, coll') \<Rightarrow> (Rejected err, coll'))"

definition resolve :: "'a \<Rightarrow> 'a store_op" where
  "resolve x coll = (Resolved x, coll)"

definition has_id :: "string \<Rightarrow> doc \<Rightarrow> bool" where
  "has_id oid d = (get_prop d ''_id'' = Some (Str oid))"

fun replace_first :: "('a \<Rightarrow> bool) \<Rightarrow> 'a \<Rightarrow> 'a list \<Rightarrow> 'a list" where
  "replace_first P y [] = []"
| "replace_first P y (x # xs) = (if P x then y # xs else x # replace_first P y xs)"

fun remove_first :: "('a \<Rightarrow> bool) \<Rightarrow> 'a list \<Rightarrow> 'a list" where
  "remove_first P [] = []"
| "remove_first P (x # xs) = (if P x then xs else x # remove_first P xs)"

text \<open>\<open>Item.find(filter)\<close>.\<close>

definition find_docs :: "string option \<Rightarrow> filter \<Rightarrow> doc list store_op" where
  "find_docs f flt coll =
    (case f of
       Some err \<Rightarrow> (Rejected err, coll)
     | None \<Rightarrow> (Resolved (filter (matches flt) coll), coll))"

text \<open>\<open>Item.findById(id)\<close>: a string that is no identifier is rejected by the cast.\<close>

definition findById :: "env \<Rightarrow> string option \<Rightarrow> string \<Rightarrow> doc option store_op" where
  "findById e f i coll =
    (case cast_id e i of
       Inl err \<Rightarrow> (Rejected err, coll)
     | Inr oid \<Rightarrow>
        (case f of
           Some err \<Rightarrow> (Rejected err, coll)
         | None \<Rightarrow> (Resolved (find (has_id oid) coll), coll)))"

text \<open>
  \<open>new Item(body).save()\<close>: the body is cast and validated, the schema's defaults fill the
  paths the body leaves out, and the document gets its identifier and both timestamps.
\<close>

definition schema_defaults :: doc where
  "schema_defaults = [(''end_year'', Str []), (''start_year'', Str []), (''impact'', Str [])]"

definition save :: "env \<Rightarrow> string option \<Rightarrow> doc \<Rightarrow> doc store_op" where
  "save e f body coll =
    (case cast_doc e body of
       Inl err \<Rightarrow> (Rejected err, coll)
     | Inr d \<Rightarrow>
        (case f of
           Some err \<Rightarrow> (Rejected err, coll)
         | None \<Rightarrow>
            (let saved = set_prop ''updatedAt'' (Str (now e))
                          (set_prop ''createdAt'' (Str (now e))
                            (set_prop ''_id'' (Str (new_id e)) (AList.merge schema_defaults d)))
             in (Resolved saved, coll @ [saved]))))"

text \<open>
  \<open>Item.findByIdAndUpdate(id, body, {new: true})\<close>: the fields of the cast body are set on
  the document with that identifier and the document after the update is the result; with no
  such document the result is \<open>null\<close> and nothing is written.
\<close>

definition findByIdAndUpdate ::
    "env \<Rightarrow> string option \<Rightarrow> string \<Rightarrow> doc \<Rightarrow> doc option store_op" where
  "findByIdAndUpdate e f i body coll =
    (case cast_id e i of
       Inl err \<Rightarrow> (Rejected err, coll)
     | Inr oid \<Rightarrow>
        (case cast_doc e body of
           Inl err \<Rightarrow> (Rejected err, coll)
         | Inr upd \<Rightarrow>
            (case f of
               Some err \<Rightarrow> (Rejected err, coll)
             | None \<Rightarrow>
                (case find (has_id oid) coll of
                   None \<Rightarrow> (Resolved None, coll)
                 | Some d \<Rightarrow>
                    (let d' = set_prop ''updatedAt'' (Str (now e)) (AList.merge d upd)
                     in (Resolved (Some d'), replace_first (has_id oid) d' coll))))))"

text \<open>
  \<open>Item.findByIdAndDelete(id)\<close>: the document with that identifier is removed and is the
  result; with no such document the result is \<open>null\<close>.
\<close>

definition findByIdAndDelete :: "env \<Rightarrow> string option \<Rightarrow> string \<Rightarrow> doc option store_op" where
  "findByIdAndDelete e f i coll =
    (case cast_id e i of
       Inl err \<Rightarrow> (Rejected err, coll)
     | Inr oid \<Rightarrow>
        (case f of
           Some err \<Rightarrow> (Rejected err, coll)
         | None \<Rightarrow> (Resolved (find (has_id oid) coll), remove_first (has_id oid) coll)))"

text \<open>\<open>Item.distinct(field)\<close>: the values the field takes, each once.\<close>

definition distinct_values :: "string option \<Rightarrow> string \<Rightarrow> val list store_op" where
  "distinct_values f field coll =
    (case f of
       Some err \<Rightarrow> (Rejected err, coll)
     | None \<Rightarrow> (Resolved (remdups (List.map_filter (\<lambda>d. get_prop d field) coll)), coll))"

section \<open>Aggregation\<close>

text \<open>
  The three kinds of stage the statistics handler uses, as it writes them:
  \<open>{$match: {field: {op: v, ...}}}\<close> with the operator object as the list of the
  properties of its literal, \<open>{$group: {_id: "$key", out: acc}}\<close> and
  \<open>{$sort: {field: dir}}\<close>.
\<close>

datatype accumulator = Avg string | Sum1

datatype stage =
  Match string "(string \<times> val) list"
| Group string string accumulator
| Sort string int

text \<open>
  An object literal defines its properties from left to right; a name written twice keeps
  its first position and the value written last.
\<close>

definition object_literal :: "(string \<times> 'a) list \<Rightarrow> (string \<times> 'a) list" where
  "object_literal ps = fold (\<lambda>p obj. set_prop (fst p) (snd p) obj) ps []"

text \<open>
  The store's equality of a field with a query value: a missing field equals \<open>null\<close> only.
  \<open>$ne\<close> is its negation, so \<open>{$ne: null}\<close> holds of the fields that are present and not
  \<open>null\<close>, and \<open>{$ne: v}\<close> for any other \<open>v\<close> holds of a missing field. The source uses no
  other operator.
\<close>

definition field_equals :: "val option \<Rightarrow> val \<Rightarrow> bool" where
  "field_equals x v = (case x of None \<Rightarrow> v = Null | Some y \<Rightarrow> y = v)"

definition op_holds :: "val option \<Rightarrow> string \<times> val \<Rightarrow> bool" where
  "op_holds x c = (fst c = ''$ne'' \<and> \<not> field_equals x (snd c))"

definition match_stage :: "string \<Rightarrow> (string \<times> val) list \<Rightarrow> doc list \<Rightarrow> doc list" where
  "match_stage field ops docs =
    filter (\<lambda>d. list_all (op_holds (get_prop d field)) (object_literal ops)) docs"

text \<open>
  \<open>$group\<close>: one output document per value of the key, a missing key counting as \<open>null\<close>.
  \<open>$avg\<close> is the mean of the numeric values of the field in the group, \<open>null\<close> when there is
  none; \<open>{$sum: 1}\<close> counts the documents of the group. The store leaves the order of the
  groups open; the model lists them by first occurrence.
\<close>

definition field_or_null :: "string \<Rightarrow> doc \<Rightarrow> val" where
  "field_or_null k d = (case get_prop d k of None \<Rightarrow> Null | Some v \<Rightarrow> v)"

definition numeric :: "string \<Rightarrow> doc \<Rightarrow> rat option" where
  "numeric field d = (case get_prop d field of Some (Num x) \<Rightarrow> Some x | _ \<Rightarrow> None)"

definition mean :: "rat list \<Rightarrow> val" where
  "mean xs = (if xs = [] then Null else Num (sum_list xs / of_nat (length xs)))"

fun accumulate :: "accumulator \<Rightarrow> doc list \<Rightarrow> val" where
  "accumulate (Avg field) docs = mean (List.map_filter (numeric field) docs)"
| "accumulate Sum1 docs = Num (of_nat (length docs))"

definition group_keys :: "string \<Rightarrow> doc list \<Rightarrow> val list" where
  "group_keys k docs = rev (remdups (rev (map (field_or_null k) docs)))"

definition group_stage :: "string \<Rightarrow> string \<Rightarrow> accumulator \<Rightarrow> doc list \<Rightarrow> doc list" where
  "group_stage k out acc docs =
    map (\<lambda>key. [(''_id'', key), (out, accumulate acc (filter (\<lambda>d. field_or_null k d = key) docs))])
      (group_keys k docs)"

text \<open>
  \<open>$sort\<close> compares values in the store's order of types, \<open>null\<close> before numbers before
  strings, numbers by value and strings byte by byte; a missing sort field counts as \<open>null\<close>.
  Direction \<open>1\<close> is ascending, \<open>-1\<close> descending.
\<close>

fun bson_le :: "val \<Rightarrow> val \<Rightarrow> bool" where
  "bson_le Null _ = True"
| "bson_le (Num x) Null = False"
| "bson_le (Num x) (Num y) = (x \<le> y)"
| "bson_le (Num x) (Str t) = True"
| "bson_le (Str s) (Str t) = (s \<le> t)"
| "bson_le (Str s) _ = False"

fun insert_by :: "('a \<Rightarrow> 'a \<Rightarrow> bool) \<Rightarrow> 'a \<Rightarrow> 'a list \<Rightarrow> 'a list" where
  "insert_by le x [] = [x]"
| "insert_by le x (y # ys) = (if le x y then x # y # ys else y # insert_by le x ys)"

definition sort_by :: "('a \<Rightarrow> 'a \<Rightarrow> bool) \<Rightarrow> 'a list \<Rightarrow> 'a list" where
  "sort_by le xs = foldr (insert_by le) xs []"

definition sort_order :: "string \<Rightarrow> int \<Rightarrow> doc \<Rightarrow> doc \<Rightarrow> bool" where
  "sort_order field dir a b =
    (if dir < 0 then bson_le (field_or_null field b) (field_or_null field a)
     else bson_le (field_or_null field a) (field_or_null field b))"

definition sort_stage :: "string \<Rightarrow> int \<Rightarrow> doc list \<Rightarrow> doc list" where
  "sort_stage field dir docs = sort_by (sort_order field dir) docs"

fun run_stage :: "stage \<Rightarrow> doc list \<Rightarrow> doc list" where
  "run_stage (Match field ops) docs = match_stage field ops docs"
| "run_stage (Group k out acc) docs = group_stage k out acc docs"
| "run_stage (Sort field dir) docs = sort_stage field dir docs"

definition run_pipeline :: "stage list \<Rightarrow> doc list \<Rightarrow> doc list" where
  "run_pipeline stages docs = fold run_stage stages docs"

text \<open>\<open>Item.aggregate(pipeline)\<close>.\<close>

definition aggregate :: "string option \<Rightarrow> stage list \<Rightarrow> doc list store_op" where
  "aggregate f stages coll =
    (case f of
       Some err \<Rightarrow> (Rejected err, coll)
     | None \<Rightarrow> (Resolved (run_pipeline stages coll), coll))"

text \<open>The four pipelines of \<open>router.get("/stats/aggregate")\<close>, lines 146 to 170.\<close>

definition avgIntensityByRegion :: "stage list" where
  "avgIntensityByRegion =
    [Match ''intensity'' [(''$ne'', Null)],
     Group ''region'' ''avgIntensity'' (Avg ''intensity''),
     Sort ''avgIntensity'' (- 1)]"

definition countByTopic :: "stage list" where
  "countByTopic =
    [Group ''topic'' ''count'' Sum1,
     Sort ''count'' (- 1)]"

definition avgLikelihoodBySector :: "stage list" where
  "avgLikelihoodBySector =
    [Match ''likelihood'' [(''$ne'', Null)],
     Group ''sector'' ''avgLikelihood'' (Avg ''likelihood''),
     Sort ''avgLikelihood'' (- 1)]"

definition avgRelevanceByYear :: "stage list" where
  "avgRelevanceByYear =
    [Match ''relevance'' [(''$ne'', Null), (''$ne'', Str [])],
     Group ''end_year'' ''avgRelevance'' (Avg ''relevance''),
     Sort ''_id'' 1]"

section \<open>Request handlers\<close>

text \<open>
  A response is its status code and its JSON body: \<open>{message: m}\<close>, an array of records, one
  record or \<open>null\<close>, the object of distinct values, or the object of the four statistics.
\<close>

datatype body =
  Message string
| Records "doc list"
| Record "doc option"
| Filters "(string \<times> val list) list"
| Stats "(string \<times> doc list) list"

record response =
  status :: nat
  json :: body

text \<open>\<open>router.get("/")\<close>.\<close>

definition get_items :: "env \<Rightarrow> params \<Rightarrow> doc list \<Rightarrow> response \<times> doc list" where
  "get_items e query coll =
    (case find_docs (fault e 0) (list_filter query) coll of
       (Resolved items, coll') \<Rightarrow> (\<lparr>status = 200, json = Records items\<rparr>, coll')
     | (Rejected err, coll') \<Rightarrow> (\<lparr>status = 500, json = Message ''Server Error''\<rparr>, coll'))"

text \<open>\<open>router.get("/:id")\<close>.\<close>

definition get_item :: "env \<Rightarrow> string \<Rightarrow> doc list \<Rightarrow> response \<times> doc list" where
  "get_item e i coll =
    (case findById e (fault e 0) i coll of
       (Resolved None, coll') \<Rightarrow> (\<lparr>status = 404, json = Message ''Item not found''\<rparr>, coll')
     | (Resolved (Some item), coll') \<Rightarrow> (\<lparr>status = 200, json = Record (Some item)\<rparr>, coll')
     | (Rejected err, coll') \<Rightarrow> (\<lparr>status = 500, json = Message err\<rparr>, coll'))"

text \<open>\<open>router.post("/")\<close>.\<close>

definition post_item :: "env \<Rightarrow> doc \<Rightarrow> doc list \<Rightarrow> response \<times> doc list" where
  "post_item e reqbody coll =
    (case save e (fault e 0) reqbody coll of
       (Resolved savedItem, coll') \<Rightarrow> (\<lparr>status = 201, json = Record (Some savedItem)\<rparr>, coll')
     | (Rejected err, coll') \<Rightarrow> (\<lparr>status = 400, json = Message ''Failed to add item''\<rparr>, coll'))"

text \<open>\<open>router.put("/:id")\<close>.\<close>

definition put_item :: "env \<Rightarrow> string \<Rightarrow> doc \<Rightarrow> doc list \<Rightarrow> response \<times> doc list" where
  "put_item e i reqbody coll =
    (case findByIdAndUpdate e (fault e 0) i reqbody coll of
       (Resolved updatedItem, coll') \<Rightarrow> (\<lparr>status = 200, json = Record updatedItem\<rparr>, coll')
     | (Rejected err, coll') \<Rightarrow>
         (\<lparr>status = 400, json = Message ''Failed to update item''\<rparr>, coll'))"

text \<open>\<open>router.delete("/:id")\<close>.\<close>

definition delete_item :: "env \<Rightarrow> string \<Rightarrow> doc list \<Rightarrow> response \<times> doc list" where
  "delete_item e i coll =
    (case findByIdAndDelete e (fault e 0) i coll of
       (Resolved _, coll') \<Rightarrow> (\<lparr>status = 200, json = Message ''Item deleted''\<rparr>, coll')
     | (Rejected err, coll') \<Rightarrow>
         (\<lparr>status = 400, json = Message ''Failed to delete item''\<rparr>, coll'))"

text \<open>\<open>router.get("/filters/all")\<close>: nine calls, one after the other.\<close>

definition load_filters :: "env \<Rightarrow> (string \<times> val list) list store_op" where
  "load_filters e =
    and_then (distinct_values (fault e 0) ''country'') (\<lambda>countries.
    and_then (distinct_values (fault e 1) ''sector'') (\<lambda>sectors.
    and_then (distinct_values (fault e 2) ''topic'') (\<lambda>topics.
    and_then (distinct_values (fault e 3) ''pestle'') (\<lambda>pestles.
    and_then (distinct_values (fault e 4) ''region'') (\<lambda>regions.
    and_then (distinct_values (fault e 5) ''source'') (\<lambda>sources.
    and_then (distinct_values (fault e 6) ''swot'') (\<lambda>swots.
    and_then (distinct_values (fault e 7) ''end_year'') (\<lambda>end_years.
    and_then (distinct_values (fault e 8) ''start_year'') (\<lambda>start_years.
    resolve
      [(''countries'', countries), (''sectors'', sectors), (''topics'', topics),
       (''pestles'', pestles), (''regions'', regions), (''sources'', sources),
       (''swots'', swots), (''end_years'', end_years), (''start_years'', start_years)])))))))))"

definition get_filters :: "env \<Rightarrow> doc list \<Rightarrow> response \<times> doc list" where
  "get_filters e coll =
    (case load_filters e coll of
       (Resolved filters, coll') \<Rightarrow> (\<lparr>status = 200, json = Filters filters\<rparr>, coll')
     | (Rejected err, coll') \<Rightarrow>
         (\<lparr>status = 500, json = Message ''Failed to load filters''\<rparr>, coll'))"

text \<open>\<open>router.post("/filter")\<close>.\<close>

definition post_filter :: "env \<Rightarrow> params \<Rightarrow> doc list \<Rightarrow> response \<times> doc list" where
  "post_filter e reqbody coll =
    (case find_docs (fault e 0) (chart_filter reqbody) coll of
       (Resolved filteredData, coll') \<Rightarrow> (\<lparr>status = 200, json = Records filteredData\<rparr>, coll')
     | (Rejected err, coll') \<Rightarrow>
         (\<lparr>status = 500, json = Message ''Failed to filter data''\<rparr>, coll'))"

text \<open>\<open>router.get("/stats/aggregate")\<close>: the four pipelines, one after the other.\<close>

definition load_stats :: "env \<Rightarrow> (string \<times> doc list) list store_op" where
  "load_stats e =
    and_then (aggregate (fault e 0) avgIntensityByRegion) (\<lambda>r1.
    and_then (aggregate (fault e 1) countByTopic) (\<lambda>r2.
    and_then (aggregate (fault e 2) avgLikelihoodBySector) (\<lambda>r3.
    and_then (aggregate (fault e 3) avgRelevanceByYear) (\<lambda>r4.
    resolve
      [(''avgIntensityByRegion'', r1), (''countByTopic'', r2),
       (''avgLikelihoodBySector'', r3), (''avgRelevanceByYear'', r4)]))))"

definition get_stats :: "env \<Rightarrow> doc list \<Rightarrow> response \<times> doc list" where
  "get_stats e coll =
    (case load_stats e coll of
       (Resolved stats, coll') \<Rightarrow> (\<lparr>status = 200, json = Stats stats\<rparr>, coll')
     | (Rejected err, coll') \<Rightarrow>
         (\<lparr>status = 500, json = Message ''Failed to fetch statistics''\<rparr>, coll'))"

section \<open>Vocabulary of the properties\<close>

text \<open>A field is present in a document when it is there and is not \<open>null\<close>.\<close>

definition present :: "string \<Rightarrow> doc \<Rightarrow> bool" where
  "present field d = (case get_prop d field of None \<Rightarrow> False | Some v \<Rightarrow> v \<noteq> Null)"

text \<open>The number a group of \<open>countByTopic\<close> carries in \<open>count\<close>.\<close>

definition count_of :: "doc \<Rightarrow> rat" where
  "count_of g = (case get_prop g ''count'' of Some (Num n) \<Rightarrow> n | _ \<Rightarrow> 0)"

text \<open>
  An environment for the concrete runs: the store does not fail, an identifier is a string of
  24 characters, every body passes the schema as it is.
\<close>

definition sample_env :: env where
  "sample_env =
    \<lparr>fault = (\<lambda>n. None),
     cast_id = (\<lambda>s. if length s = 24 then Inr s
                     else Inl (''Cast to ObjectId failed for value '' @ s)),
     cast_doc = Inr,
     new_id = ''65f0a1b2c3d4e5f601234567'',
     now = ''2024-01-01T00:00:00.000Z''\<rparr>"

section \<open>The filter builder\<close>

lemma get_prop_assign_if:
  "get_prop (assign_if k p flt) k' = (if k' = k \<and> truthy p then p else get_prop flt k')"
  by (simp add: assign_if_def get_prop_def set_prop_def truthy_def update_conv'
      split: option.splits)

lemma distinct_assign_if:
  "distinct (map fst flt) \<Longrightarrow> distinct (map fst (assign_if k p flt))"
  by (simp add: assign_if_def set_prop_def distinct_update split: option.splits)

lemma get_prop_list_filter:
  "get_prop (list_filter q) k =
     (if k \<in> set list_params \<and> truthy (get_prop q k) then get_prop q k else None)"
  by (simp add: list_filter_def Let_def get_prop_assign_if list_params_def)
    (auto simp: get_prop_def)

lemma get_prop_chart_filter:
  "get_prop (chart_filter b) k =
     (if k \<in> set chart_params \<and> truthy (get_prop b k) then get_prop b k else None)"
  by (simp add: chart_filter_def Let_def get_prop_assign_if chart_params_def)
    (auto simp: get_prop_def)

lemma distinct_list_filter: "distinct (map fst (list_filter q))"
  by (simp add: list_filter_def Let_def distinct_assign_if)

lemma distinct_chart_filter: "distinct (map fst (chart_filter b))"
  by (simp add: chart_filter_def Let_def distinct_assign_if)

lemma matches_iff:
  assumes "distinct (map fst flt)"
  shows "matches flt d \<longleftrightarrow> (\<forall>k s. get_prop flt k = Some s \<longrightarrow> get_prop d k = Some (Str s))"
  using assms by (auto simp: matches_def field_is_def list_all_iff get_prop_def)

lemma no_property_is_empty:
  assumes "distinct (map fst obj)" and "\<forall>k. get_prop obj k = None"
  shows "obj = []"
proof (cases obj)
  case Nil
  then show ?thesis .
next
  case (Cons p ps)
  then have "get_prop obj (fst p) = Some (snd p)"
    by (cases p) (simp add: get_prop_def)
  with assms(2) show ?thesis by simp
qed

lemma find_docs_empty_filter: "find_docs None [] coll = (Resolved coll, coll)"
  by (simp add: find_docs_def matches_def)

text \<open>
  Claim C1. For every mapping \<open>q\<close> of parameter names to strings, the filter of the listing
  endpoint has exactly the keys among country, sector, topic, pestle, region, start_year and
  end_year whose value in \<open>q\<close> is a non-empty string, each with that value and each once; a
  document matches the filter exactly when each of these fields equals the value given; and
  when no recognised parameter has a non-empty value the filter is empty and the store
  returns the whole collection.
\<close>

theorem list_filter_exact:
  "get_prop (list_filter q) k =
     (if k \<in> set list_params \<and> truthy (get_prop q k) then get_prop q k else None)
   \<and> distinct (map fst (list_filter q))
   \<and> (matches (list_filter q) d \<longleftrightarrow>
        (\<forall>n \<in> set list_params. \<forall>s. get_prop q n = Some s \<and> s \<noteq> [] \<longrightarrow>
           get_prop d n = Some (Str s)))
   \<and> ((\<forall>n \<in> set list_params. \<not> truthy (get_prop q n)) \<longrightarrow>
        list_filter q = [] \<and> (\<forall>r. matches (list_filter q) r)
        \<and> find_docs None (list_filter q) coll = (Resolved coll, coll))"
proof (intro conjI impI)
  show "get_prop (list_filter q) k =
     (if k \<in> set list_params \<and> truthy (get_prop q k) then get_prop q k else None)"
    by (rule get_prop_list_filter)
  show "distinct (map fst (list_filter q))"
    by (rule distinct_list_filter)
  show "matches (list_filter q) d \<longleftrightarrow>
        (\<forall>n \<in> set list_params. \<forall>s. get_prop q n = Some s \<and> s \<noteq> [] \<longrightarrow>
           get_prop d n = Some (Str s))"
    unfolding matches_iff [OF distinct_list_filter] get_prop_list_filter
    by (auto simp: truthy_def split: if_splits)
next
  assume none: "\<forall>n \<in> set list_params. \<not> truthy (get_prop q n)"
  then have "\<forall>k. get_prop (list_filter q) k = None"
    by (auto simp: get_prop_list_filter)
  with distinct_list_filter show empty: "list_filter q = []"
    by (rule no_property_is_empty)
  show "\<forall>r. matches (list_filter q) r"
    by (simp add: empty matches_def)
  show "find_docs None (list_filter q) coll = (Resolved coll, coll)"
    by (simp add: empty find_docs_empty_filter)
qed

theorem list_filter_exact_witness:
  "list_filter [] = []
   \<and> find_docs None (list_filter []) [[(''country'', Str ''India'')], []]
       = (Resolved [[(''country'', Str ''India'')], []], [[(''country'', Str ''India'')], []])
   \<and> get_prop (list_filter [(''country'', ''India''), (''topic'', [])]) ''country''
       = Some ''India''
   \<and> get_prop (list_filter [(''country'', ''India''), (''topic'', [])]) ''topic'' = None
   \<and> matches (list_filter [(''country'', ''India''), (''topic'', [])])
        [(''country'', Str ''India''), (''topic'', Str ''oil'')]"
proof -
  let ?q = "[(''country'', ''India''), (''topic'', [])]"
  let ?c = "[[(''country'', Str ''India'')], []]"
  have none: "\<forall>n \<in> set list_params. \<not> truthy (get_prop ([] :: params) n)"
    by (simp add: get_prop_def truthy_def)
  have "list_filter [] = []" and "find_docs None (list_filter []) ?c = (Resolved ?c, ?c)"
    using list_filter_exact [of "[]" "''country''" "[]" ?c] none by blast+
  moreover have "get_prop (list_filter ?q) ''country'' = Some ''India''"
    using list_filter_exact [of ?q "''country''" "[]" "[]"]
    by (simp add: list_params_def get_prop_def truthy_def)
  moreover have "get_prop (list_filter ?q) ''topic'' = None"
    using list_filter_exact [of ?q "''topic''" "[]" "[]"]
    by (simp add: list_params_def get_prop_def truthy_def)
  moreover have "matches (list_filter ?q) [(''country'', Str ''India''), (''topic'', Str ''oil'')]"
    using list_filter_exact [of ?q "''country''"
        "[(''country'', Str ''India''), (''topic'', Str ''oil'')]" "[]"]
    by (simp add: list_params_def get_prop_def)
  ultimately show ?thesis by simp
qed

text \<open>
  Claim C3, as stated, fails: the chart-filtering endpoint does not read \<open>start_year\<close>. A body
  that gives it only that parameter gets the empty filter, where the listing endpoint builds
  the condition on \<open>start_year\<close>.
\<close>

theorem chart_filter_ignores_start_year:
  "chart_filter [(''start_year'', ''2016'')] = []
   \<and> list_filter [(''start_year'', ''2016'')] = [(''start_year'', ''2016'')]"
  by (simp add: chart_filter_def list_filter_def Let_def assign_if_def get_prop_def set_prop_def)

text \<open>
  Claim C3, amended. The chart-filtering endpoint builds its filter from region, sector, topic,
  end_year, country, pestle and source, that is from the parameters of the listing endpoint
  without \<open>start_year\<close> and with \<open>source\<close> added, and applies the same rule to each: a key is
  in the filter exactly when its value in the body is a non-empty string, with that value.
\<close>

theorem chart_filter_exact:
  "get_prop (chart_filter b) k =
     (if k \<in> set chart_params \<and> truthy (get_prop b k) then get_prop b k else None)
   \<and> distinct (map fst (chart_filter b))
   \<and> set chart_params = (set list_params - {''start_year''}) \<union> {''source''}
   \<and> (k \<in> set chart_params \<inter> set list_params \<longrightarrow>
        get_prop (chart_filter b) k = get_prop (list_filter b) k)"
proof (intro conjI impI)
  show "set chart_params = (set list_params - {''start_year''}) \<union> {''source''}"
    by (auto simp: chart_params_def list_params_def)
  show "get_prop (chart_filter b) k = get_prop (list_filter b) k"
    if "k \<in> set chart_params \<inter> set list_params"
    using that by (simp add: get_prop_chart_filter get_prop_list_filter)
qed (rule get_prop_chart_filter distinct_chart_filter)+

theorem chart_filter_exact_witness:
  "get_prop (chart_filter [(''source'', ''EIA''), (''region'', []), (''topic'', ''oil'')])
      ''source'' = Some ''EIA''
   \<and> get_prop (chart_filter [(''source'', ''EIA''), (''region'', []), (''topic'', ''oil'')])
      ''topic''
     = get_prop (list_filter [(''source'', ''EIA''), (''region'', []), (''topic'', ''oil'')])
        ''topic''"
proof -
  let ?b = "[(''source'', ''EIA''), (''region'', []), (''topic'', ''oil'')]"
  have "get_prop (chart_filter ?b) ''source'' = Some ''EIA''"
    using chart_filter_exact [of ?b "''source''"]
    by (simp add: chart_params_def get_prop_def truthy_def)
  moreover have "''topic'' \<in> set chart_params \<inter> set list_params"
    by (simp add: chart_params_def list_params_def)
  then have "get_prop (chart_filter ?b) ''topic'' = get_prop (list_filter ?b) ''topic''"
    using chart_filter_exact [of ?b "''topic''"] by blast
  ultimately show ?thesis by simp
qed

section \<open>The aggregation pipelines\<close>

lemma sum_insert_by:
  fixes f :: "'a \<Rightarrow> rat"
  shows "sum_list (map f (insert_by le x xs)) = f x + sum_list (map f xs)"
  by (induction xs) (auto simp: algebra_simps)

lemma sum_sort_by:
  fixes f :: "'a \<Rightarrow> rat"
  shows "sum_list (map f (sort_by le xs)) = sum_list (map f xs)"
  by (induction xs) (auto simp: sort_by_def sum_insert_by)

lemma set_insert_by: "set (insert_by le x xs) = insert x (set xs)"
  by (induction xs) auto

lemma set_sort_by: "set (sort_by le xs) = set xs"
  by (induction xs) (auto simp: sort_by_def set_insert_by)

lemma set_group_keys: "set (group_keys k docs) = field_or_null k ` set docs"
  by (simp add: group_keys_def)

lemma distinct_group_keys: "distinct (group_keys k docs)"
  by (simp add: group_keys_def)

text \<open>Every element falls into the bucket of exactly one key.\<close>

lemma count_partition:
  assumes "distinct ks" and "f ` set xs \<subseteq> set ks"
  shows "sum_list (map (\<lambda>k. length (filter (\<lambda>x. f x = k) xs)) ks) = length xs"
  using assms(2)
proof (induction xs)
  case Nil
  then show ?case by simp
next
  case (Cons x xs)
  have one: "sum_list (map (\<lambda>k. if f x = k then 1 else 0) ks) = (1::nat)"
    using Cons.prems assms(1)
    by (simp add: sum_list_distinct_conv_sum_set sum.delta' subset_iff)
  have "sum_list (map (\<lambda>k. length (filter (\<lambda>y. f y = k) (x # xs))) ks)
      = sum_list (map (\<lambda>k. (if f x = k then 1 else 0) + length (filter (\<lambda>y. f y = k) xs)) ks)"
    by (rule arg_cong [where f = sum_list]) auto
  also have "\<dots> = sum_list (map (\<lambda>k. if f x = k then 1 else 0) ks)
      + sum_list (map (\<lambda>k. length (filter (\<lambda>y. f y = k) xs)) ks)"
    by (simp add: sum_list_addf)
  also have "\<dots> = length (x # xs)"
    using one Cons by simp
  finally show ?case .
qed

lemma sum_list_of_nat:
  "sum_list (map (\<lambda>k. of_nat (g k)) ks) = (of_nat (sum_list (map g ks)) :: rat)"
  by (induction ks) simp_all

lemma run_countByTopic:
  "run_pipeline countByTopic coll
    = sort_stage ''count'' (- 1) (group_stage ''topic'' ''count'' Sum1 coll)"
  by (simp add: run_pipeline_def countByTopic_def)

lemma count_of_group:
  "count_of [(''_id'', key), (''count'', Num n)] = n"
  by (simp add: count_of_def get_prop_def)

lemma sum_counts_group_stage:
  "sum_list (map count_of (group_stage ''topic'' ''count'' Sum1 coll)) = of_nat (length coll)"
proof -
  have "sum_list (map count_of (group_stage ''topic'' ''count'' Sum1 coll))
      = sum_list (map (\<lambda>key. of_nat (length (filter (\<lambda>d. field_or_null ''topic'' d = key) coll)))
          (group_keys ''topic'' coll))"
    by (simp add: group_stage_def comp_def count_of_group)
  also have "\<dots> = of_nat (sum_list (map (\<lambda>key.
        length (filter (\<lambda>d. field_or_null ''topic'' d = key) coll)) (group_keys ''topic'' coll)))"
    by (rule sum_list_of_nat)
  also have "\<dots> = of_nat (length coll)"
    by (simp add: count_partition [OF distinct_group_keys] set_group_keys)
  finally show ?thesis .
qed

text \<open>
  Claim C7. For every collection, the \<open>countByTopic\<close> pipeline (no pre-filter, one group per
  topic, the records without a topic in the \<open>null\<close> group) gives every group a number in
  \<open>count\<close>, and these numbers sum to the number of records of the collection.
\<close>

theorem countByTopic_counts_sum_to_total:
  "sum_list (map count_of (run_pipeline countByTopic coll)) = of_nat (length coll)
   \<and> list_all (\<lambda>g. get_prop g ''count'' = Some (Num (count_of g)))
        (run_pipeline countByTopic coll)"
proof
  show "sum_list (map count_of (run_pipeline countByTopic coll)) = of_nat (length coll)"
    by (simp add: run_countByTopic sort_stage_def sum_sort_by sum_counts_group_stage)
  show "list_all (\<lambda>g. get_prop g ''count'' = Some (Num (count_of g)))
        (run_pipeline countByTopic coll)"
    by (auto simp: run_countByTopic sort_stage_def set_sort_by list_all_iff group_stage_def
        count_of_def get_prop_def)
qed

theorem countByTopic_counts_sum_to_total_witness:
  "sum_list (map count_of (run_pipeline countByTopic
      [[(''topic'', Str ''oil'')], [(''topic'', Str ''gas'')], [(''topic'', Str ''oil'')],
       [(''title'', Str ''untitled'')], [(''topic'', Null)]])) = 5"
  using countByTopic_counts_sum_to_total
    [of "[[(''topic'', Str ''oil'')], [(''topic'', Str ''gas'')], [(''topic'', Str ''oil'')],
          [(''title'', Str ''untitled'')], [(''topic'', Null)]]"]
  by simp

lemma match_ne_null: "match_stage field [(''$ne'', Null)] docs = filter (present field) docs"
  unfolding match_stage_def
  by (rule filter_cong)
    (auto simp: object_literal_def set_prop_def op_holds_def field_equals_def
      present_def split: option.splits)

lemma numeric_present: "numeric field d = Some x \<Longrightarrow> present field d"
  by (auto simp: numeric_def present_def split: option.splits val.splits)

lemma numbers_of_present:
  "List.map_filter (numeric field) (filter (\<lambda>d. present field d \<and> P d) docs)
    = List.map_filter (numeric field) (filter P docs)"
proof (induction docs)
  case Nil
  then show ?case by simp
next
  case (Cons d docs)
  then show ?case
    by (cases "numeric field d") (auto simp: List.map_filter_simps dest: numeric_present)
qed

lemma run_avgIntensityByRegion:
  "run_pipeline avgIntensityByRegion coll
    = sort_stage ''avgIntensity'' (- 1)
        (group_stage ''region'' ''avgIntensity'' (Avg ''intensity'')
          (filter (present ''intensity'') coll))"
  by (simp add: run_pipeline_def avgIntensityByRegion_def match_ne_null)

text \<open>
  Claim C8. The \<open>avgIntensityByRegion\<close> pipeline gives the same result on the collection and
  on the collection without the records whose intensity is \<open>null\<close> or missing. Its groups
  are the regions of the records with an intensity, and the value of a group is the mean of
  the numeric intensities of the records of that region: their sum divided by their number,
  so a record without intensity adds nothing to either. On the collection of the two records
  \<open>{region: "Asia", intensity: 3}\<close> and \<open>{region: "Asia", intensity: 5}\<close> the result is
  \<open>{_id: "Asia", avgIntensity: 4}\<close>.
\<close>

theorem avgIntensityByRegion_ignores_missing:
  "run_pipeline avgIntensityByRegion coll
     = run_pipeline avgIntensityByRegion (filter (present ''intensity'') coll)
   \<and> set (run_pipeline avgIntensityByRegion coll)
     = (\<lambda>key. [(''_id'', key),
          (''avgIntensity'',
            mean (List.map_filter (numeric ''intensity'')
              (filter (\<lambda>d. field_or_null ''region'' d = key) coll)))])
        ` field_or_null ''region'' ` {d \<in> set coll. present ''intensity'' d}
   \<and> (\<forall>xs. xs \<noteq> [] \<longrightarrow> mean xs = Num (sum_list xs / of_nat (length xs)))
   \<and> run_pipeline avgIntensityByRegion
        [[(''region'', Str ''Asia''), (''intensity'', Num 3)],
         [(''region'', Str ''Asia''), (''intensity'', Num 5)]]
     = [[(''_id'', Str ''Asia''), (''avgIntensity'', Num 4)]]"
proof (intro conjI)
  show "run_pipeline avgIntensityByRegion coll
     = run_pipeline avgIntensityByRegion (filter (present ''intensity'') coll)"
    by (simp add: run_avgIntensityByRegion)
  show "set (run_pipeline avgIntensityByRegion coll)
     = (\<lambda>key. [(''_id'', key),
          (''avgIntensity'',
            mean (List.map_filter (numeric ''intensity'')
              (filter (\<lambda>d. field_or_null ''region'' d = key) coll)))])
        ` field_or_null ''region'' ` {d \<in> set coll. present ''intensity'' d}"
    by (simp add: run_avgIntensityByRegion sort_stage_def set_sort_by group_stage_def
        set_group_keys numbers_of_present)
  show "\<forall>xs. xs \<noteq> [] \<longrightarrow> mean xs = Num (sum_list xs / of_nat (length xs))"
    by (simp add: mean_def)
  show "run_pipeline avgIntensityByRegion
        [[(''region'', Str ''Asia''), (''intensity'', Num 3)],
         [(''region'', Str ''Asia''), (''intensity'', Num 5)]]
     = [[(''_id'', Str ''Asia''), (''avgIntensity'', Num 4)]]"
    by (simp add: run_avgIntensityByRegion present_def get_prop_def group_stage_def
        group_keys_def field_or_null_def sort_stage_def sort_by_def mean_def
        List.map_filter_simps numeric_def)
qed

theorem avgIntensityByRegion_ignores_missing_witness:
  "run_pipeline avgIntensityByRegion
      [[(''region'', Str ''Asia''), (''intensity'', Num 3)],
       [(''region'', Str ''Asia'')],
       [(''region'', Str ''Asia''), (''intensity'', Null)],
       [(''region'', Str ''Asia''), (''intensity'', Num 5)]]
    = [[(''_id'', Str ''Asia''), (''avgIntensity'', Num 4)]]"
  using avgIntensityByRegion_ignores_missing
    [of "[[(''region'', Str ''Asia''), (''intensity'', Num 3)],
          [(''region'', Str ''Asia'')],
          [(''region'', Str ''Asia''), (''intensity'', Null)],
          [(''region'', Str ''Asia''), (''intensity'', Num 5)]]"]
  by (simp add: present_def get_prop_def)

lemma object_literal_relevance:
  "object_literal [(''$ne'', Null), (''$ne'', Str [])] = [(''$ne'', Str [])]"
  by (simp add: object_literal_def set_prop_def)

lemma match_relevance:
  "match_stage ''relevance'' [(''$ne'', Null), (''$ne'', Str [])] docs
    = filter (\<lambda>d. get_prop d ''relevance'' \<noteq> Some (Str [])) docs"
  unfolding match_stage_def
  by (rule filter_cong)
    (auto simp: object_literal_relevance op_holds_def field_equals_def
      split: option.splits)

text \<open>
  Claim C2 fails on the code. The operator object \<open>{$ne: null, $ne: ""}\<close> names \<open>$ne\<close> twice,
  so it is the object \<open>{$ne: ""}\<close>: the pre-filter drops the records whose relevance is the
  empty string and keeps those whose relevance is \<open>null\<close> or missing. A collection of one
  record with an end year and no relevance yields the group of that year with the mean
  \<open>null\<close>, where the pre-filter of \<open>avgIntensityByRegion\<close> leaves no group.
\<close>

theorem avgRelevanceByYear_keeps_missing_relevance:
  "object_literal [(''$ne'', Null), (''$ne'', Str [])] = [(''$ne'', Str [])]
   \<and> run_pipeline avgRelevanceByYear [[(''end_year'', Str ''2020'')]]
     = [[(''_id'', Str ''2020''), (''avgRelevance'', Null)]]
   \<and> run_pipeline avgRelevanceByYear [[(''end_year'', Str ''2020''), (''relevance'', Null)]]
     = [[(''_id'', Str ''2020''), (''avgRelevance'', Null)]]
   \<and> run_pipeline avgIntensityByRegion [[(''region'', Str ''Asia'')]] = []"
  by (simp add: object_literal_relevance run_pipeline_def avgRelevanceByYear_def
      avgIntensityByRegion_def match_relevance match_ne_null present_def get_prop_def
      group_stage_def group_keys_def field_or_null_def sort_stage_def sort_by_def mean_def
      List.map_filter_simps numeric_def)

text \<open>What does hold of \<open>avgRelevanceByYear\<close>: its groups come out in ascending order of the key.\<close>

lemma bson_le_total: "bson_le a b \<or> bson_le b a"
  by (cases a; cases b) auto

lemma bson_le_trans: "bson_le a b \<Longrightarrow> bson_le b c \<Longrightarrow> bson_le a c"
  by (cases a; cases b; cases c) auto

lemma sorted_insert_by:
  assumes total: "\<And>a b. le a b \<or> le b a"
    and trans: "\<And>a b c. le a b \<Longrightarrow> le b c \<Longrightarrow> le a c"
  shows "sorted_wrt le xs \<Longrightarrow> sorted_wrt le (insert_by le x xs)"
proof (induction xs)
  case Nil
  then show ?case by simp
next
  case (Cons y ys)
  show ?case
  proof (cases "le x y")
    case True
    with Cons.prems show ?thesis by (auto intro: trans)
  next
    case False
    with total have "le y x" by blast
    with Cons False show ?thesis by (auto simp: set_insert_by)
  qed
qed

lemma sorted_sort_by:
  assumes "\<And>a b. le a b \<or> le b a" and "\<And>a b c. le a b \<Longrightarrow> le b c \<Longrightarrow> le a c"
  shows "sorted_wrt le (sort_by le xs)"
proof (induction xs)
  case Nil
  then show ?case by (simp add: sort_by_def)
next
  case (Cons x xs)
  have "sort_by le (x # xs) = insert_by le x (sort_by le xs)"
    by (simp add: sort_by_def)
  with Cons sorted_insert_by [of le, OF assms] show ?case by simp
qed

lemma avgRelevanceByYear_ascending:
  "sorted_wrt (\<lambda>a b. bson_le (field_or_null ''_id'' a) (field_or_null ''_id'' b))
     (run_pipeline avgRelevanceByYear coll)"
proof -
  have order: "sort_order ''_id'' 1 = (\<lambda>a b. bson_le (field_or_null ''_id'' a) (field_or_null ''_id'' b))"
    by (simp add: sort_order_def fun_eq_iff)
  have "sorted_wrt (sort_order ''_id'' 1) (sort_by (sort_order ''_id'' 1) xs)" for xs
    unfolding order by (rule sorted_sort_by) (use bson_le_total bson_le_trans in blast)+
  then show ?thesis
    by (simp add: run_pipeline_def avgRelevanceByYear_def sort_stage_def order)
qed

section \<open>The request handlers\<close>

lemma find_absent: "(\<forall>d \<in> set coll. \<not> P d) \<Longrightarrow> find P coll = None"
  by (simp add: find_None_iff)

lemma find_existing:
  assumes "d \<in> set coll" and "P d"
  obtains item where "find P coll = Some item" and "item \<in> set coll" and "P item"
proof -
  from assms have "find P coll \<noteq> None"
    by (auto simp: find_None_iff)
  then obtain item where found: "find P coll = Some item"
    by auto
  then have "item \<in> set coll" and "P item"
    by (auto simp: find_Some_iff)
  with found show thesis by (rule that)
qed

text \<open>
  Claim C5. Get-by-id on an identifier that no record carries answers 404 with the message
  \<open>Item not found\<close>; on a string the cast rejects as an identifier, and on any failure of
  the store, it answers 500; when a record carries the identifier it answers 200 with such a
  record.
\<close>

theorem get_item_outcomes:
  "(cast_id e i = Inr oid \<and> fault e 0 = None \<and> (\<forall>d \<in> set coll. \<not> has_id oid d) \<longrightarrow>
      get_item e i coll = (\<lparr>status = 404, json = Message ''Item not found''\<rparr>, coll))
   \<and> (cast_id e i = Inl err \<longrightarrow> status (fst (get_item e i coll)) = 500)
   \<and> (fault e 0 = Some err \<longrightarrow> status (fst (get_item e i coll)) = 500)
   \<and> (cast_id e i = Inr oid \<and> fault e 0 = None \<and> d \<in> set coll \<and> has_id oid d \<longrightarrow>
      (\<exists>item. item \<in> set coll \<and> has_id oid item
         \<and> get_item e i coll = (\<lparr>status = 200, json = Record (Some item)\<rparr>, coll)))"
proof (intro conjI impI)
  assume "cast_id e i = Inr oid \<and> fault e 0 = None \<and> (\<forall>d \<in> set coll. \<not> has_id oid d)"
  then show "get_item e i coll = (\<lparr>status = 404, json = Message ''Item not found''\<rparr>, coll)"
    by (simp add: get_item_def findById_def find_absent)
next
  assume "cast_id e i = Inl err"
  then show "status (fst (get_item e i coll)) = 500"
    by (simp add: get_item_def findById_def)
next
  assume "fault e 0 = Some err"
  then show "status (fst (get_item e i coll)) = 500"
    by (simp add: get_item_def findById_def split: sum.splits)
next
  assume a: "cast_id e i = Inr oid \<and> fault e 0 = None \<and> d \<in> set coll \<and> has_id oid d"
  then obtain item where "find (has_id oid) coll = Some item" "item \<in> set coll" "has_id oid item"
    by (blast elim: find_existing)
  with a show "\<exists>item. item \<in> set coll \<and> has_id oid item
         \<and> get_item e i coll = (\<lparr>status = 200, json = Record (Some item)\<rparr>, coll)"
    by (auto simp: get_item_def findById_def)
qed

theorem get_item_outcomes_witness:
  "get_item sample_env ''65f0a1b2c3d4e5f6a7b8c9d0'' []
     = (\<lparr>status = 404, json = Message ''Item not found''\<rparr>, [])
   \<and> status (fst (get_item sample_env ''abc'' [])) = 500
   \<and> status (fst (get_item (sample_env\<lparr>fault := \<lambda>n. Some ''connection lost''\<rparr>)
        ''65f0a1b2c3d4e5f6a7b8c9d0'' [])) = 500
   \<and> get_item sample_env ''65f0a1b2c3d4e5f6a7b8c9d0''
        [[(''_id'', Str ''65f0a1b2c3d4e5f6a7b8c9d0''), (''topic'', Str ''oil'')]]
     = (\<lparr>status = 200,
          json = Record (Some [(''_id'', Str ''65f0a1b2c3d4e5f6a7b8c9d0''), (''topic'', Str ''oil'')])\<rparr>,
        [[(''_id'', Str ''65f0a1b2c3d4e5f6a7b8c9d0''), (''topic'', Str ''oil'')]])"
proof -
  let ?i = "''65f0a1b2c3d4e5f6a7b8c9d0''"
  let ?d = "[(''_id'', Str ?i), (''topic'', Str ''oil'')]"
  have "get_item sample_env ?i [] = (\<lparr>status = 404, json = Message ''Item not found''\<rparr>, [])"
    using get_item_outcomes [of sample_env ?i ?i "[]"]
    by (simp add: sample_env_def)
  moreover have "status (fst (get_item sample_env ''abc'' [])) = 500"
    using get_item_outcomes [of sample_env "''abc''" _ _ "''Cast to ObjectId failed for value abc''"]
    by (simp add: sample_env_def)
  moreover have "status (fst (get_item (sample_env\<lparr>fault := \<lambda>n. Some ''connection lost''\<rparr>) ?i [])) = 500"
    using get_item_outcomes [of "sample_env\<lparr>fault := \<lambda>n. Some ''connection lost''\<rparr>" ?i _ _
        "''connection lost''"]
    by simp
  moreover have "get_item sample_env ?i [?d] = (\<lparr>status = 200, json = Record (Some ?d)\<rparr>, [?d])"
    using get_item_outcomes [of sample_env ?i ?i "[?d]" _ ?d]
    by (simp add: sample_env_def has_id_def get_prop_def)
  ultimately show ?thesis by simp
qed

lemma get_prop_merge:
  "get_prop (AList.merge d upd) k = (case get_prop upd k of Some v \<Rightarrow> Some v | None \<Rightarrow> get_prop d k)"
  by (simp add: get_prop_def merge_conv' map_add_def split: option.splits)

lemma get_prop_set_prop:
  "get_prop (set_prop k v obj) k' = (if k' = k then Some v else get_prop obj k')"
  by (simp add: get_prop_def set_prop_def update_conv')

text \<open>
  Claim C6. Update on an identifier that no record carries answers 200 with the body \<open>null\<close>
  and writes nothing; when the store rejects the update (the identifier or the body fails its
  cast, or the store fails) the answer is 400 with the message \<open>Failed to update item\<close>;
  when a record carries the identifier the answer is 200 with the record after the update,
  whose fields are those of the body where the body has them and those of the stored
  record elsewhere, with \<open>updatedAt\<close> refreshed, and that record replaces the stored one.
\<close>

theorem put_item_outcomes:
  "(cast_id e i = Inr oid \<and> cast_doc e b = Inr upd \<and> fault e 0 = None
      \<and> (\<forall>d \<in> set coll. \<not> has_id oid d) \<longrightarrow>
      put_item e i b coll = (\<lparr>status = 200, json = Record None\<rparr>, coll))
   \<and> (cast_id e i = Inl err \<or> cast_doc e b = Inl err \<or> fault e 0 = Some err \<longrightarrow>
      put_item e i b coll = (\<lparr>status = 400, json = Message ''Failed to update item''\<rparr>, coll))
   \<and> (cast_id e i = Inr oid \<and> cast_doc e b = Inr upd \<and> fault e 0 = None
      \<and> d \<in> set coll \<and> has_id oid d \<longrightarrow>
      (\<exists>old new. old \<in> set coll \<and> has_id oid old
         \<and> put_item e i b coll
            = (\<lparr>status = 200, json = Record (Some new)\<rparr>, replace_first (has_id oid) new coll)
         \<and> (\<forall>k. get_prop new k =
              (if k = ''updatedAt'' then Some (Str (now e))
               else case get_prop upd k of Some v \<Rightarrow> Some v | None \<Rightarrow> get_prop old k))))"
proof (intro conjI impI)
  assume "cast_id e i = Inr oid \<and> cast_doc e b = Inr upd \<and> fault e 0 = None
      \<and> (\<forall>d \<in> set coll. \<not> has_id oid d)"
  then show "put_item e i b coll = (\<lparr>status = 200, json = Record None\<rparr>, coll)"
    by (simp add: put_item_def findByIdAndUpdate_def find_absent)
next
  assume "cast_id e i = Inl err \<or> cast_doc e b = Inl err \<or> fault e 0 = Some err"
  then show "put_item e i b coll
      = (\<lparr>status = 400, json = Message ''Failed to update item''\<rparr>, coll)"
    by (auto simp: put_item_def findByIdAndUpdate_def split: sum.splits)
next
  assume a: "cast_id e i = Inr oid \<and> cast_doc e b = Inr upd \<and> fault e 0 = None
      \<and> d \<in> set coll \<and> has_id oid d"
  then obtain old where old: "find (has_id oid) coll = Some old" "old \<in> set coll" "has_id oid old"
    by (blast elim: find_existing)
  define new where "new = set_prop ''updatedAt'' (Str (now e)) (AList.merge old upd)"
  have "put_item e i b coll
      = (\<lparr>status = 200, json = Record (Some new)\<rparr>, replace_first (has_id oid) new coll)"
    using a old(1) by (simp add: put_item_def findByIdAndUpdate_def new_def Let_def)
  moreover have "\<forall>k. get_prop new k =
      (if k = ''updatedAt'' then Some (Str (now e))
       else case get_prop upd k of Some v \<Rightarrow> Some v | None \<Rightarrow> get_prop old k)"
    by (simp add: new_def get_prop_set_prop get_prop_merge)
  ultimately show "\<exists>old new. old \<in> set coll \<and> has_id oid old
         \<and> put_item e i b coll
            = (\<lparr>status = 200, json = Record (Some new)\<rparr>, replace_first (has_id oid) new coll)
         \<and> (\<forall>k. get_prop new k =
              (if k = ''updatedAt'' then Some (Str (now e))
               else case get_prop upd k of Some v \<Rightarrow> Some v | None \<Rightarrow> get_prop old k))"
    using old(2,3) by blast
qed

theorem put_item_outcomes_witness:
  "put_item sample_env ''65f0a1b2c3d4e5f6a7b8c9d0'' [(''topic'', Str ''gas'')] []
     = (\<lparr>status = 200, json = Record None\<rparr>, [])
   \<and> put_item sample_env ''abc'' [(''topic'', Str ''gas'')] []
     = (\<lparr>status = 400, json = Message ''Failed to update item''\<rparr>, [])
   \<and> (\<exists>new. put_item sample_env ''65f0a1b2c3d4e5f6a7b8c9d0'' [(''topic'', Str ''gas'')]
          [[(''_id'', Str ''65f0a1b2c3d4e5f6a7b8c9d0''), (''topic'', Str ''oil''),
            (''region'', Str ''Asia'')]]
        = (\<lparr>status = 200, json = Record (Some new)\<rparr>, [new])
      \<and> get_prop new ''topic'' = Some (Str ''gas'')
      \<and> get_prop new ''region'' = Some (Str ''Asia''))"
proof -
  let ?i = "''65f0a1b2c3d4e5f6a7b8c9d0''"
  let ?b = "[(''topic'', Str ''gas'')]"
  let ?d = "[(''_id'', Str ?i), (''topic'', Str ''oil''), (''region'', Str ''Asia'')]"
  have "put_item sample_env ?i ?b [] = (\<lparr>status = 200, json = Record None\<rparr>, [])"
    using put_item_outcomes [of sample_env ?i ?i ?b ?b "[]"]
    by (simp add: sample_env_def)
  moreover have "put_item sample_env ''abc'' ?b []
      = (\<lparr>status = 400, json = Message ''Failed to update item''\<rparr>, [])"
    using put_item_outcomes [of sample_env "''abc''" _ ?b _ _
        "''Cast to ObjectId failed for value abc''"]
    by (simp add: sample_env_def)
  moreover have "\<exists>new. put_item sample_env ?i ?b [?d]
        = (\<lparr>status = 200, json = Record (Some new)\<rparr>, [new])
      \<and> get_prop new ''topic'' = Some (Str ''gas'')
      \<and> get_prop new ''region'' = Some (Str ''Asia'')"
  proof -
    have "cast_id sample_env ?i = Inr ?i \<and> cast_doc sample_env ?b = Inr ?b
        \<and> fault sample_env 0 = None \<and> ?d \<in> set [?d] \<and> has_id ?i ?d"
      by (simp add: sample_env_def has_id_def get_prop_def)
    with put_item_outcomes [of sample_env ?i ?i ?b ?b "[?d]" _ ?d]
    obtain old new where "old \<in> set [?d]"
      and "put_item sample_env ?i ?b [?d]
            = (\<lparr>status = 200, json = Record (Some new)\<rparr>, replace_first (has_id ?i) new [?d])"
      and "\<forall>k. get_prop new k =
              (if k = ''updatedAt'' then Some (Str (now sample_env))
               else case get_prop ?b k of Some v \<Rightarrow> Some v | None \<Rightarrow> get_prop old k)"
      by blast
    then show ?thesis
      by (simp add: has_id_def get_prop_def)
  qed
  ultimately show ?thesis by simp
qed

lemma remove_first_absent: "(\<forall>x \<in> set xs. \<not> P x) \<Longrightarrow> remove_first P xs = xs"
  by (induction xs) auto

lemma remove_first_twice:
  "length (filter P xs) \<le> 1 \<Longrightarrow> remove_first P (remove_first P xs) = remove_first P xs"
proof (induction xs)
  case Nil
  then show ?case by simp
next
  case (Cons x xs)
  show ?case
  proof (cases "P x")
    case True
    with Cons.prems have "filter P xs = []" by simp
    then have "\<forall>y \<in> set xs. \<not> P y" by (simp add: filter_empty_conv)
    with True show ?thesis by (simp add: remove_first_absent)
  next
    case False
    with Cons show ?thesis by simp
  qed
qed

lemma sample_env_simps:
  "fault sample_env n = None"
  "length s = 24 \<Longrightarrow> cast_id sample_env s = Inr s"
  "cast_doc sample_env b = Inr b"
  by (simp_all add: sample_env_def)

text \<open>
  Claim C10. Delete on an identifier that no record carries answers 200 with the message
  \<open>Item deleted\<close> and leaves the collection as it is; the answer is the same when a record
  carries the identifier, no input makes the handler answer 404, a second delete of the same
  identifier gets the answer of the first and, identifiers being unique, changes nothing more.
\<close>

theorem delete_item_absent_succeeds:
  "(cast_id e i = Inr oid \<and> fault e 0 = None \<and> (\<forall>d \<in> set coll. \<not> has_id oid d) \<longrightarrow>
      delete_item e i coll = (\<lparr>status = 200, json = Message ''Item deleted''\<rparr>, coll))
   \<and> (cast_id e i = Inr oid \<and> fault e 0 = None \<longrightarrow>
      delete_item e i coll
        = (\<lparr>status = 200, json = Message ''Item deleted''\<rparr>, remove_first (has_id oid) coll))
   \<and> status (fst (delete_item e i coll)) \<noteq> 404
   \<and> fst (delete_item e i (snd (delete_item e i coll))) = fst (delete_item e i coll)
   \<and> (cast_id e i = Inr oid \<and> length (filter (has_id oid) coll) \<le> 1 \<longrightarrow>
      snd (delete_item e i (snd (delete_item e i coll))) = snd (delete_item e i coll))"
proof (intro conjI impI)
  assume "cast_id e i = Inr oid \<and> fault e 0 = None \<and> (\<forall>d \<in> set coll. \<not> has_id oid d)"
  then show "delete_item e i coll = (\<lparr>status = 200, json = Message ''Item deleted''\<rparr>, coll)"
    by (simp add: delete_item_def findByIdAndDelete_def remove_first_absent)
next
  assume "cast_id e i = Inr oid \<and> fault e 0 = None"
  then show "delete_item e i coll
      = (\<lparr>status = 200, json = Message ''Item deleted''\<rparr>, remove_first (has_id oid) coll)"
    by (simp add: delete_item_def findByIdAndDelete_def)
next
  show "status (fst (delete_item e i coll)) \<noteq> 404"
    by (simp add: delete_item_def findByIdAndDelete_def split: sum.splits option.splits)
  show "fst (delete_item e i (snd (delete_item e i coll))) = fst (delete_item e i coll)"
    by (simp add: delete_item_def findByIdAndDelete_def split: sum.splits option.splits)
next
  assume "cast_id e i = Inr oid \<and> length (filter (has_id oid) coll) \<le> 1"
  then show "snd (delete_item e i (snd (delete_item e i coll))) = snd (delete_item e i coll)"
    by (simp add: delete_item_def findByIdAndDelete_def remove_first_twice split: option.splits)
qed

theorem delete_item_absent_succeeds_witness:
  "delete_item sample_env ''65f0a1b2c3d4e5f6a7b8c9d0'' [[(''_id'', Str ''65f0a1b2c3d4e5f6a7b8c9ff'')]]
     = (\<lparr>status = 200, json = Message ''Item deleted''\<rparr>, [[(''_id'', Str ''65f0a1b2c3d4e5f6a7b8c9ff'')]])
   \<and> delete_item sample_env ''65f0a1b2c3d4e5f6a7b8c9ff'' [[(''_id'', Str ''65f0a1b2c3d4e5f6a7b8c9ff'')]]
     = (\<lparr>status = 200, json = Message ''Item deleted''\<rparr>, [])
   \<and> snd (delete_item sample_env ''65f0a1b2c3d4e5f6a7b8c9ff''
        (snd (delete_item sample_env ''65f0a1b2c3d4e5f6a7b8c9ff''
          [[(''_id'', Str ''65f0a1b2c3d4e5f6a7b8c9ff'')]])))
     = snd (delete_item sample_env ''65f0a1b2c3d4e5f6a7b8c9ff''
          [[(''_id'', Str ''65f0a1b2c3d4e5f6a7b8c9ff'')]])"
proof -
  let ?i = "''65f0a1b2c3d4e5f6a7b8c9d0''"
  let ?j = "''65f0a1b2c3d4e5f6a7b8c9ff''"
  let ?c = "[[(''_id'', Str ?j)]]"
  have "delete_item sample_env ?i ?c = (\<lparr>status = 200, json = Message ''Item deleted''\<rparr>, ?c)"
    using delete_item_absent_succeeds [of sample_env ?i ?i ?c]
    by (simp add: sample_env_simps has_id_def get_prop_def)
  moreover have "delete_item sample_env ?j ?c
      = (\<lparr>status = 200, json = Message ''Item deleted''\<rparr>, [])"
    using delete_item_absent_succeeds [of sample_env ?j ?j ?c]
    by (simp add: sample_env_simps has_id_def get_prop_def)
  moreover have "cast_id sample_env ?j = Inr ?j \<and> length (filter (has_id ?j) ?c) \<le> 1"
    by (simp add: sample_env_simps)
  then have "snd (delete_item sample_env ?j (snd (delete_item sample_env ?j ?c)))
      = snd (delete_item sample_env ?j ?c)"
    using delete_item_absent_succeeds [of sample_env ?j ?j ?c] by blast
  ultimately show ?thesis by simp
qed

lemma and_then_frame:
  assumes "\<And>c. snd (m c) = c" and "\<And>x c. snd (k x c) = c"
  shows "snd (and_then m k coll) = coll"
proof (cases "m coll")
  case (Pair p coll')
  with assms(1) [of coll] have "coll' = coll" by simp
  with Pair assms(2) show ?thesis
    by (cases p) (simp_all add: and_then_def)
qed

lemma distinct_values_frame: "snd (distinct_values f field coll) = coll"
  by (simp add: distinct_values_def split: option.splits)

lemma aggregate_frame: "snd (aggregate f stages coll) = coll"
  by (simp add: aggregate_def split: option.splits)

lemma find_docs_frame: "snd (find_docs f flt coll) = coll"
  by (simp add: find_docs_def split: option.splits)

lemma findById_frame: "snd (findById e f i coll) = coll"
  by (simp add: findById_def split: sum.splits option.splits)

lemma resolve_frame: "snd (resolve x coll) = coll"
  by (simp add: resolve_def)

lemma load_filters_frame: "snd (load_filters e coll) = coll"
  unfolding load_filters_def
  by (intro and_then_frame distinct_values_frame resolve_frame)

lemma load_stats_frame: "snd (load_stats e coll) = coll"
  unfolding load_stats_def
  by (intro and_then_frame aggregate_frame resolve_frame)

text \<open>
  Claim C9. For every request and every behaviour of the store, the handlers of List,
  Get-by-id, distinct values, chart filter and aggregate statistics hand the collection back
  as they found it: of the eight handlers only Create, Update and Delete call a store
  operation that writes.
\<close>

theorem read_handlers_leave_collection:
  "snd (get_items e q coll) = coll
   \<and> snd (get_item e i coll) = coll
   \<and> snd (get_filters e coll) = coll
   \<and> snd (post_filter e b coll) = coll
   \<and> snd (get_stats e coll) = coll"
proof (intro conjI)
  show "snd (get_items e q coll) = coll"
    using find_docs_frame [of "fault e 0" "list_filter q" coll]
    by (auto simp: get_items_def split: prod.splits promise.splits)
  show "snd (get_item e i coll) = coll"
    using findById_frame [of e "fault e 0" i coll]
    by (auto simp: get_item_def split: prod.splits promise.splits option.splits)
  show "snd (get_filters e coll) = coll"
    using load_filters_frame [of e coll]
    by (auto simp: get_filters_def split: prod.splits promise.splits)
  show "snd (post_filter e b coll) = coll"
    using find_docs_frame [of "fault e 0" "chart_filter b" coll]
    by (auto simp: post_filter_def split: prod.splits promise.splits)
  show "snd (get_stats e coll) = coll"
    using load_stats_frame [of e coll]
    by (auto simp: get_stats_def split: prod.splits promise.splits)
qed

theorem read_handlers_leave_collection_witness:
  "snd (get_items sample_env [(''topic'', ''oil'')] [[(''topic'', Str ''gas'')]])
     = [[(''topic'', Str ''gas'')]]
   \<and> snd (get_stats sample_env [[(''topic'', Str ''gas'')]]) = [[(''topic'', Str ''gas'')]]"
  using read_handlers_leave_collection
    [of sample_env "[(''topic'', ''oil'')]" "[[(''topic'', Str ''gas'')]]"]
  by simp

text \<open>The three other handlers do write.\<close>

lemma write_handlers_change_collection:
  "snd (post_item sample_env [(''topic'', Str ''oil'')] []) \<noteq> []
   \<and> snd (put_item sample_env ''65f0a1b2c3d4e5f6a7b8c9ff'' [(''topic'', Str ''oil'')]
        [[(''_id'', Str ''65f0a1b2c3d4e5f6a7b8c9ff'')]])
     \<noteq> [[(''_id'', Str ''65f0a1b2c3d4e5f6a7b8c9ff'')]]
   \<and> snd (delete_item sample_env ''65f0a1b2c3d4e5f6a7b8c9ff''
        [[(''_id'', Str ''65f0a1b2c3d4e5f6a7b8c9ff'')]])
     \<noteq> [[(''_id'', Str ''65f0a1b2c3d4e5f6a7b8c9ff'')]]"
  by (simp add: post_item_def save_def put_item_def findByIdAndUpdate_def delete_item_def
      findByIdAndDelete_def sample_env_def has_id_def get_prop_def set_prop_def Let_def)

text \<open>
  Claim C4 fails on the code. The handler of Get-by-id answers a rejected store call with
  \<open>{message: err.message}\<close>: whatever text the error of the store or of the identifier cast
  carries is the message of the response. The seven other handlers answer with a text of
  their own.
\<close>

theorem get_item_exposes_store_error:
  "get_item (e\<lparr>cast_id := \<lambda>s. Inl err\<rparr>) i coll = (\<lparr>status = 500, json = Message err\<rparr>, coll)
   \<and> get_item (e\<lparr>cast_id := Inr, fault := \<lambda>n. Some err\<rparr>) i coll
     = (\<lparr>status = 500, json = Message err\<rparr>, coll)
   \<and> get_item sample_env ''abc'' []
     = (\<lparr>status = 500, json = Message ''Cast to ObjectId failed for value abc''\<rparr>, [])"
  by (simp add: get_item_def findById_def sample_env_def)

lemma other_handlers_fixed_messages:
  "status (fst (get_items e q coll)) \<noteq> 200 \<longrightarrow>
     fst (get_items e q coll) = \<lparr>status = 500, json = Message ''Server Error''\<rparr>"
  "status (fst (post_item e b coll)) \<noteq> 201 \<longrightarrow>
     fst (post_item e b coll) = \<lparr>status = 400, json = Message ''Failed to add item''\<rparr>"
  "status (fst (put_item e i b coll)) \<noteq> 200 \<longrightarrow>
     fst (put_item e i b coll) = \<lparr>status = 400, json = Message ''Failed to update item''\<rparr>"
  "status (fst (delete_item e i coll)) \<noteq> 200 \<longrightarrow>
     fst (delete_item e i coll) = \<lparr>status = 400, json = Message ''Failed to delete item''\<rparr>"
  "status (fst (get_filters e coll)) \<noteq> 200 \<longrightarrow>
     fst (get_filters e coll) = \<lparr>status = 500, json = Message ''Failed to load filters''\<rparr>"
  "status (fst (post_filter e p coll)) \<noteq> 200 \<longrightarrow>
     fst (post_filter e p coll) = \<lparr>status = 500, json = Message ''Failed to filter data''\<rparr>"
  "status (fst (get_stats e coll)) \<noteq> 200 \<longrightarrow>
     fst (get_stats e coll) = \<lparr>status = 500, json = Message ''Failed to fetch statistics''\<rparr>"
  by (auto simp: get_items_def post_item_def put_item_def delete_item_def get_filters_def
      post_filter_def get_stats_def split: prod.splits promise.splits)

text \<open>When no call fails, the statistics handler answers with the results of the four pipelines.\<close>

lemma get_stats_success:
  assumes "\<And>n. fault e n = None"
  shows "get_stats e coll =
    (\<lparr>status = 200,
      json = Stats
        [(''avgIntensityByRegion'', run_pipeline avgIntensityByRegion coll),
         (''countByTopic'', run_pipeline countByTopic coll),
         (''avgLikelihoodBySector'', run_pipeline avgLikelihoodBySector coll),
         (''avgRelevanceByYear'', run_pipeline avgRelevanceByYear coll)]\<rparr>,
     coll)"
  by (simp add: get_stats_def load_stats_def and_then_def aggregate_def resolve_def assms)

end
